theory Spec2Isabelle
  imports Main "HOL-Library.AList"
begin

section \<open>SocketLogger: connection lifecycle and outgoing queue\<close>

text \<open>
  A shallow embedding of \<^verbatim>\<open>src/SocketLogger.js\<close>. The logger object is a record,
  every method and every socket callback registered by \<^verbatim>\<open>_init\<close> is a function
  from the object to the updated object. The collaborators the class only calls
  (the socket, the event bus, the timer of the runtime) are recorded as logs of the
  calls made on them, in call order.
\<close>

subsection \<open>JavaScript values\<close>

text \<open>
  Messages are plain JavaScript values. Numbers are only carried around by this class,
  never computed with, so an integer stands for them. \<open>JArguments\<close> is the array-like
  \<^verbatim>\<open>arguments\<close> object of a call: the caller's arguments, in order.
  An object is the list of its properties; the first binding of a name is its value.
\<close>

datatype jsval =
    JUndefined
  | JNull
  | JBool bool
  | JNum int
  | JStr string
  | JArr "jsval list"
  | JArguments "jsval list"
  | JObj "(string \<times> jsval) list"

datatype js_error = TypeError

text \<open>
  Reading a property \<^verbatim>\<open>v.k\<close>. On \<^verbatim>\<open>undefined\<close> and \<^verbatim>\<open>null\<close> the read throws;
  on an object a missing property reads as \<^verbatim>\<open>undefined\<close>. The class reads only
  \<^verbatim>\<open>msg\<close> and \<^verbatim>\<open>id\<close>, which no primitive value, array or arguments object has.
\<close>

fun get_prop :: "jsval \<Rightarrow> string \<Rightarrow> js_error + jsval" where
  "get_prop JUndefined k = Inl TypeError"
| "get_prop JNull k = Inl TypeError"
| "get_prop (JObj fs) k = Inr (case map_of fs k of None \<Rightarrow> JUndefined | Some v \<Rightarrow> v)"
| "get_prop v k = Inr JUndefined"

subsection \<open>The collaborators\<close>

text \<open>
  Modelled from the spec: the class \<^verbatim>\<open>Socket\<close> of typhonjs-core-socket is imported
  and is not part of the sources. Section 2 of the specification gives its interface:
  \<^verbatim>\<open>connect()\<close>, \<^verbatim>\<open>disconnect()\<close>, \<^verbatim>\<open>send(message)\<close>, and the events opened,
  closed and message received. The calls the logger makes on it are the constructors
  below; its events are events of an execution.
\<close>

datatype socket_call =
    Connect
  | Disconnect "jsval list"
  | Send jsval

text \<open>The only callback ever handed to \<^verbatim>\<open>setTimeout\<close>: \<^verbatim>\<open>socket.connect\<close>, bound.\<close>

datatype callback = SocketConnect

definition s_RECONNECT_INTERVAL :: nat where
  "s_RECONNECT_INTERVAL = 5000"

definition s_STR_EVENT_CONNECTED :: string where
  "s_STR_EVENT_CONNECTED = ''socketlogger:connected''"

definition s_STR_EVENT_DISCONNECTED :: string where
  "s_STR_EVENT_DISCONNECTED = ''socketlogger:disconnected''"

subsection \<open>The object\<close>

record params =
  autoConnect :: bool
  autoReconnect :: bool
  host :: string
  socketOptions :: "(string \<times> jsval) list"

text \<open>
  \<open>status\<close>, \<open>messageQueue\<close> and \<open>params\<close> are the fields of the class.
  \<open>socket\<close> is the log of calls made on \<^verbatim>\<open>this.socket\<close>, \<open>deferred\<close> the log of
  \<^verbatim>\<open>triggerDefer\<close> calls (event name and payload), \<open>timers\<close> the pending
  \<^verbatim>\<open>setTimeout\<close> callbacks with the time each is due, and \<open>clock\<close> the current
  time in milliseconds.
\<close>

record logger =
  status :: string
  messageQueue :: "jsval list"
  params :: params
  socket :: "socket_call list"
  deferred :: "(string \<times> (string \<times> jsval) list) list"
  clock :: nat
  timers :: "(nat \<times> callback) list"

subsection \<open>The queue\<close>

text \<open>
  Modelled from the spec: the class \<^verbatim>\<open>Queue\<close> of typhonjs-core-socket
  (\<^verbatim>\<open>src/core/Queue.js\<close>) is imported by the logger and is not part of the sources.
  Section 4.1 of the specification describes it: \<^verbatim>\<open>enqueue\<close> appends to the tail
  (called \<^verbatim>\<open>push\<close> by the logger); \<^verbatim>\<open>flush\<close> (called \<^verbatim>\<open>process\<close>) iterates from
  head to tail, asks the transmit predicate for each message, removes the message when
  the predicate returns true and stops at once when it returns false; \<^verbatim>\<open>clear\<close>
  (called \<^verbatim>\<open>empty\<close>) discards every buffered message. The predicate may act on
  the state \<open>'s\<close> of its owner.
\<close>

definition queue_push :: "'m \<Rightarrow> 'm list \<Rightarrow> 'm list" where
  "queue_push element queue = queue @ [element]"

fun queue_process :: "('m \<Rightarrow> 's \<Rightarrow> bool \<times> 's) \<Rightarrow> 'm list \<Rightarrow> 's \<Rightarrow> 'm list \<times> 's" where
  "queue_process canSend [] s = ([], s)"
| "queue_process canSend (m # ms) s =
     (case canSend m s of
        (ack, s') \<Rightarrow> if ack then queue_process canSend ms s' else (m # ms, s'))"

definition queue_empty :: "'m list \<Rightarrow> 'm list" where
  "queue_empty queue = []"

subsection \<open>The runtime: deferred events and timers\<close>

text \<open>
  Modelled from the spec: \<^verbatim>\<open>triggerDefer\<close> is inherited from \<^verbatim>\<open>TyphonEvents\<close>
  (typhonjs-core-backbone-common, imported) and \<^verbatim>\<open>setTimeout\<close> belongs to the
  runtime. By section 5 of the specification a notification is delivered later, never
  from inside the transition that produced it, so a call only adds to the log of
  deferred events; by section 3 the reconnect timer is a fire-once scheduled action.
\<close>

definition triggerDefer :: "string \<Rightarrow> (string \<times> jsval) list \<Rightarrow> logger \<Rightarrow> logger" where
  "triggerDefer name payload this = this\<lparr>deferred := deferred this @ [(name, payload)]\<rparr>"

definition setTimeout :: "callback \<Rightarrow> nat \<Rightarrow> logger \<Rightarrow> logger" where
  "setTimeout cb delay this = this\<lparr>timers := timers this @ [(clock this + delay, cb)]\<rparr>"

fun run_callback :: "callback \<Rightarrow> logger \<Rightarrow> logger" where
  "run_callback SocketConnect this = this\<lparr>socket := socket this @ [Connect]\<rparr>"

text \<open>
  \<open>elapse d\<close>: \<open>d\<close> milliseconds pass with no other event. Every timer due by then
  fires once and is gone. The timers are kept in the order they were set, which is the
  order they are due in, every delay being the same constant.
\<close>

definition elapse :: "nat \<Rightarrow> logger \<Rightarrow> logger" where
  "elapse d this =
     (let t = clock this + d;
          due = filter (\<lambda>(at, cb). at \<le> t) (timers this);
          rest = filter (\<lambda>(at, cb). \<not> at \<le> t) (timers this)
      in fold (\<lambda>(at, cb). run_callback cb) due (this\<lparr>clock := t, timers := rest\<rparr>))"

subsection \<open>The class\<close>

text \<open>The consumer handed to the queue in the constructor (lines 69-73).\<close>

definition consumer :: "jsval \<Rightarrow> logger \<Rightarrow> bool \<times> logger" where
  "consumer message this =
     (if status this = ''connected''
      then (True, this\<lparr>socket := socket this @ [Send message]\<rparr>)
      else (False, this))"

definition messageQueue_push :: "jsval \<Rightarrow> logger \<Rightarrow> logger" where
  "messageQueue_push message this =
     this\<lparr>messageQueue := queue_push message (messageQueue this)\<rparr>"

definition messageQueue_process :: "logger \<Rightarrow> logger" where
  "messageQueue_process this =
     (case queue_process consumer (messageQueue this) this of
        (queue, this') \<Rightarrow> this'\<lparr>messageQueue := queue\<rparr>)"

definition messageQueue_empty :: "logger \<Rightarrow> logger" where
  "messageQueue_empty this = this\<lparr>messageQueue := queue_empty (messageQueue this)\<rparr>"

text \<open>
  The constructor. \<open>so\<close> is what \<^verbatim>\<open>setSocketOptions(host, ssl, serializer)\<close>
  returns, a platform file outside the sources; the constructor sets its protocol.
\<close>

definition "constructor" :: "string \<Rightarrow> (string \<times> jsval) list \<Rightarrow> bool \<Rightarrow> bool \<Rightarrow> logger" where
  "constructor h so ac ar =
     (let this = \<lparr>status = ''disconnected'',
                  messageQueue = [],
                  params = \<lparr>autoConnect = ac, autoReconnect = ar, host = h,
                            socketOptions = AList.update ''protocol'' (JStr ''socketlogger'') so\<rparr>,
                  socket = [],
                  deferred = [],
                  clock = 0,
                  timers = []\<rparr>
      in if ac then this\<lparr>socket := socket this @ [Connect]\<rparr> else this)"

definition connect :: "logger \<Rightarrow> logger" where
  "connect this = this\<lparr>socket := socket this @ [Connect]\<rparr>"

definition debug :: "jsval list \<Rightarrow> logger \<Rightarrow> logger" where
  "debug arguments this =
     messageQueue_push
       (JObj [(''msg'', JStr ''log''), (''type'', JStr ''debug''), (''data'', JArguments arguments)]) this"

definition disconnect :: "jsval list \<Rightarrow> logger \<Rightarrow> logger" where
  "disconnect arguments this =
     (let this = this\<lparr>socket := socket this @ [Disconnect arguments]\<rparr>;
          this = this\<lparr>status := ''disconnected''\<rparr>;
          this = messageQueue_empty this
      in triggerDefer s_STR_EVENT_DISCONNECTED (socketOptions (params this)) this)"

definition error :: "jsval list \<Rightarrow> logger \<Rightarrow> logger" where
  "error arguments this =
     messageQueue_push
       (JObj [(''msg'', JStr ''log''), (''type'', JStr ''error''), (''data'', JArguments arguments)]) this"

definition fatal :: "jsval list \<Rightarrow> logger \<Rightarrow> logger" where
  "fatal arguments this =
     messageQueue_push
       (JObj [(''msg'', JStr ''log''), (''type'', JStr ''fatal''), (''data'', JArguments arguments)]) this"

definition info :: "jsval list \<Rightarrow> logger \<Rightarrow> logger" where
  "info arguments this =
     messageQueue_push
       (JObj [(''msg'', JStr ''log''), (''type'', JStr ''info''), (''data'', JArguments arguments)]) this"

definition trace :: "jsval list \<Rightarrow> logger \<Rightarrow> logger" where
  "trace arguments this =
     messageQueue_push
       (JObj [(''msg'', JStr ''log''), (''type'', JStr ''trace''), (''data'', JArguments arguments)]) this"

definition warn :: "jsval list \<Rightarrow> logger \<Rightarrow> logger" where
  "warn arguments this =
     messageQueue_push
       (JObj [(''msg'', JStr ''log''), (''type'', JStr ''warn''), (''data'', JArguments arguments)]) this"

text \<open>The three callbacks \<^verbatim>\<open>_init\<close> registers on the socket.\<close>

definition socket_open :: "logger \<Rightarrow> logger" where
  "socket_open this = this\<lparr>socket := socket this @ [Send (JObj [(''msg'', JStr ''connect'')])]\<rparr>"

definition socket_close :: "logger \<Rightarrow> logger" where
  "socket_close this =
     (let this = this\<lparr>status := ''disconnected''\<rparr>;
          this = messageQueue_empty this;
          this = triggerDefer s_STR_EVENT_DISCONNECTED (socketOptions (params this)) this
      in if autoReconnect (params this)
         then setTimeout SocketConnect s_RECONNECT_INTERVAL this
         else this)"

text \<open>
  The \<^verbatim>\<open>switch\<close> compares with \<^verbatim>\<open>===\<close>, so only the strings themselves match;
  there is no default case. In the \<^verbatim>\<open>ping\<close> case the message is known to be an
  object, and reading its \<^verbatim>\<open>id\<close> cannot throw.
\<close>

definition socket_message_in :: "jsval \<Rightarrow> logger \<Rightarrow> js_error + logger" where
  "socket_message_in message this =
     (case get_prop message ''msg'' of
        Inl e \<Rightarrow> Inl e
      | Inr m \<Rightarrow>
          if m = JStr ''connected'' then
            (let this = this\<lparr>status := ''connected''\<rparr>;
                 this = messageQueue_process this
             in Inr (triggerDefer s_STR_EVENT_CONNECTED (socketOptions (params this)) this))
          else if m = JStr ''ping'' then
            (case get_prop message ''id'' of
               Inl e \<Rightarrow> Inl e
             | Inr i \<Rightarrow> Inr (this\<lparr>socket := socket this @ [Send (JObj [(''msg'', JStr ''pong''), (''id'', i)])]\<rparr>))
          else Inr this)"

subsection \<open>Executions\<close>

text \<open>
  What can happen to a logger: a call of one of its public methods, one of the three
  socket events, or time passing. An exception thrown by the message callback leaves
  the object as it was (the throw is the first thing the callback does) and goes to
  the emitter of the event.
\<close>

datatype event =
    Call_connect
  | Call_disconnect "jsval list"
  | Call_debug "jsval list"
  | Call_error "jsval list"
  | Call_fatal "jsval list"
  | Call_info "jsval list"
  | Call_trace "jsval list"
  | Call_warn "jsval list"
  | Socket_open
  | Socket_close
  | Socket_message_in jsval
  | Elapse nat

fun step :: "event \<Rightarrow> logger \<Rightarrow> logger" where
  "step Call_connect this = connect this"
| "step (Call_disconnect args) this = disconnect args this"
| "step (Call_debug args) this = debug args this"
| "step (Call_error args) this = error args this"
| "step (Call_fatal args) this = fatal args this"
| "step (Call_info args) this = info args this"
| "step (Call_trace args) this = trace args this"
| "step (Call_warn args) this = warn args this"
| "step Socket_open this = socket_open this"
| "step Socket_close this = socket_close this"
| "step (Socket_message_in message) this =
     (case socket_message_in message this of Inl e \<Rightarrow> this | Inr this' \<Rightarrow> this')"
| "step (Elapse d) this = elapse d this"

fun run :: "event list \<Rightarrow> logger \<Rightarrow> logger" where
  "run [] this = this"
| "run (e # es) this = run es (step e this)"

section \<open>Properties\<close>

subsection \<open>Flushing with the logger's consumer\<close>

lemma queue_process_consumer_connected:
  "status this = ''connected'' \<Longrightarrow>
   queue_process consumer q this = ([], this\<lparr>socket := socket this @ map Send q\<rparr>)"
  by (induction q arbitrary: this) (simp_all add: consumer_def)

lemma queue_process_consumer_unconnected:
  "status this \<noteq> ''connected'' \<Longrightarrow> queue_process consumer q this = (q, this)"
  by (cases q) (simp_all add: consumer_def)

lemma messageQueue_process_connected:
  "status this = ''connected'' \<Longrightarrow>
   messageQueue_process this =
     this\<lparr>messageQueue := [], socket := socket this @ map Send (messageQueue this)\<rparr>"
  by (simp add: messageQueue_process_def queue_process_consumer_connected)

lemma messageQueue_process_unconnected:
  "status this \<noteq> ''connected'' \<Longrightarrow> messageQueue_process this = this"
  by (simp add: messageQueue_process_def queue_process_consumer_unconnected)

lemma pushes_build_queue: "foldl (\<lambda>q m. queue_push m q) q0 ms = q0 @ ms"
  by (induction ms arbitrary: q0) (simp_all add: queue_push_def)

lemma queue_process_instrumented:
  "queue_process (\<lambda>m (asked, sent). (p m, (asked @ [m], if p m then sent @ [m] else sent))) q (asked, sent)
     = (dropWhile p q, (asked @ takeWhile p q @ take 1 (dropWhile p q), sent @ takeWhile p q))"
  by (induction q arbitrary: asked sent) simp_all

lemma ping_reply:
  "get_prop message ''msg'' = Inr (JStr ''ping'') \<Longrightarrow> get_prop message ''id'' = Inr x \<Longrightarrow>
   socket_message_in message this =
     Inr (this\<lparr>socket := socket this @ [Send (JObj [(''msg'', JStr ''pong''), (''id'', x)])]\<rparr>)"
  by (simp add: socket_message_in_def)

lemma count_sends: "count_list (map Send q) Connect = 0"
  by (induction q) simp_all

lemma disconnect_eq:
  "disconnect args this =
     this\<lparr>status := ''disconnected'',
          messageQueue := [],
          socket := socket this @ [Disconnect args],
          deferred := deferred this @
            [(''socketlogger:disconnected'', socketOptions (params this))]\<rparr>"
  by (simp add: disconnect_def messageQueue_empty_def queue_empty_def triggerDefer_def
      s_STR_EVENT_DISCONNECTED_def Let_def)

subsection \<open>Executions without a reconnection\<close>

text \<open>
  With no timer pending, an event other than a call of \<^verbatim>\<open>connect\<close> makes no
  \<^verbatim>\<open>connect\<close> call on the socket and leaves no timer behind, unless it is a close
  of the socket while \<open>autoReconnect\<close> is set.
\<close>

lemma message_in_quiet:
  "timers (case socket_message_in message this of Inl e \<Rightarrow> this | Inr this' \<Rightarrow> this') = timers this
   \<and> params (case socket_message_in message this of Inl e \<Rightarrow> this | Inr this' \<Rightarrow> this') = params this
   \<and> count_list (socket (case socket_message_in message this of Inl e \<Rightarrow> this | Inr this' \<Rightarrow> this')) Connect
       = count_list (socket this) Connect"
  by (simp add: socket_message_in_def messageQueue_process_connected triggerDefer_def
      count_sends Let_def split: sum.splits)

lemma step_quiet:
  assumes "timers this = []" and "e \<noteq> Call_connect"
    and "autoReconnect (params this) \<Longrightarrow> e \<noteq> Socket_close"
  shows "timers (step e this) = [] \<and> params (step e this) = params this
    \<and> count_list (socket (step e this)) Connect = count_list (socket this) Connect"
proof (cases e)
  case (Socket_message_in message)
  then show ?thesis using assms(1) message_in_quiet [where message = message and this = this] by simp
next
  case Socket_close
  with assms have "\<not> autoReconnect (params this)" by auto
  with Socket_close assms(1) show ?thesis
    by (simp add: socket_close_def messageQueue_empty_def queue_empty_def triggerDefer_def Let_def)
next
  case (Elapse d)
  with assms(1) show ?thesis by (simp add: elapse_def)
next
  case Call_connect
  with assms(2) show ?thesis by simp
qed (use assms(1) in \<open>simp_all add: disconnect_eq trace_def debug_def info_def warn_def error_def
      fatal_def messageQueue_push_def socket_open_def\<close>)

lemma run_quiet:
  "timers this = [] \<Longrightarrow> Call_connect \<notin> set es \<Longrightarrow>
   (autoReconnect (params this) \<longrightarrow> Socket_close \<notin> set es) \<Longrightarrow>
   count_list (socket (run es this)) Connect = count_list (socket this) Connect"
proof (induction es arbitrary: this)
  case Nil
  then show ?case by simp
next
  case (Cons e es)
  have q: "timers (step e this) = [] \<and> params (step e this) = params this
    \<and> count_list (socket (step e this)) Connect = count_list (socket this) Connect"
    using Cons.prems by (intro step_quiet) auto
  have "count_list (socket (run es (step e this))) Connect = count_list (socket (step e this)) Connect"
    using Cons.prems q by (intro Cons.IH) auto
  with q show ?case by simp
qed

subsection \<open>Manual disconnect\<close>

text \<open>
  C1, as the code has it. The method \<^verbatim>\<open>disconnect\<close> forwards its arguments to the
  socket, sets the status, empties the queue and defers the disconnected event; it
  sets no timer, cancels none and makes no \<^verbatim>\<open>connect\<close> call. When no timer is
  pending at the call, no \<^verbatim>\<open>connect\<close> call reaches the socket in any later
  execution that has no call of \<^verbatim>\<open>connect\<close> and, if \<open>autoReconnect\<close> is set, no
  close of the socket.
\<close>

theorem manual_disconnect_schedules_nothing:
  "disconnect args this =
     this\<lparr>status := ''disconnected'',
          messageQueue := [],
          socket := socket this @ [Disconnect args],
          deferred := deferred this @
            [(''socketlogger:disconnected'', socketOptions (params this))]\<rparr>
   \<and> (timers this = [] \<and> Call_connect \<notin> set es
        \<and> (autoReconnect (params this) \<longrightarrow> Socket_close \<notin> set es) \<longrightarrow>
      count_list (socket (run es (disconnect args this))) Connect
        = count_list (socket this) Connect)"
proof -
  have "count_list (socket (run es (disconnect args this))) Connect
        = count_list (socket (disconnect args this)) Connect"
    if "timers this = []" "Call_connect \<notin> set es"
       "autoReconnect (params this) \<longrightarrow> Socket_close \<notin> set es"
    using that by (intro run_quiet) (simp_all add: disconnect_eq)
  then show ?thesis by (simp add: disconnect_eq)
qed

theorem manual_disconnect_schedules_nothing_witness:
  "timers (constructor ''localhost:8001'' [] True False) = []
   \<and> Call_connect \<notin> set [Socket_close, Elapse 5000, Call_info [JStr ''x''], Socket_open]
   \<and> \<not> autoReconnect (params (constructor ''localhost:8001'' [] True False))
   \<and> count_list (socket (run [Socket_close, Elapse 5000, Call_info [JStr ''x''], Socket_open]
                     (disconnect [] (constructor ''localhost:8001'' [] True False)))) Connect = 1"
  using manual_disconnect_schedules_nothing [of "[]" "constructor ''localhost:8001'' [] True False"
      "[Socket_close, Elapse 5000, Call_info [JStr ''x''], Socket_open]", THEN conjunct2]
  by (simp add: constructor_def)

text \<open>
  C1, as it is stated, fails. The close handler does not know of the manual disconnect:
  with \<open>autoReconnect\<close> set, a close of the socket after \<^verbatim>\<open>disconnect()\<close> sets the
  reconnect timer, and five seconds later the socket is asked to connect. A timer set
  by a close before \<^verbatim>\<open>disconnect()\<close> is not cancelled either, and fires.
  The three socket logs: up to the manual disconnect; disconnect, close, 5000 ms;
  close, 1000 ms, disconnect, 4000 ms.
\<close>

theorem manual_disconnect_reconnects:
  "socket (run [Socket_open, Socket_message_in (JObj [(''msg'', JStr ''connected'')]),
                Call_disconnect []]
             (constructor ''localhost:8001'' [] True True))
     = [Connect, Send (JObj [(''msg'', JStr ''connect'')]), Disconnect []]
   \<and> socket (run [Socket_open, Socket_message_in (JObj [(''msg'', JStr ''connected'')]),
                  Call_disconnect [], Socket_close, Elapse 5000]
               (constructor ''localhost:8001'' [] True True))
     = [Connect, Send (JObj [(''msg'', JStr ''connect'')]), Disconnect [], Connect]
   \<and> socket (run [Socket_open, Socket_message_in (JObj [(''msg'', JStr ''connected'')]),
                  Socket_close, Elapse 1000, Call_disconnect [], Elapse 4000]
               (constructor ''localhost:8001'' [] True True))
     = [Connect, Send (JObj [(''msg'', JStr ''connect'')]), Disconnect [], Connect]"
  by (simp add: constructor_def socket_open_def socket_message_in_def
      messageQueue_process_connected triggerDefer_def disconnect_eq socket_close_def
      messageQueue_empty_def queue_empty_def setTimeout_def elapse_def
      s_RECONNECT_INTERVAL_def Let_def)

subsection \<open>The queue\<close>

text \<open>
  C2. A queue built by pushes holds the messages in push order. Flushing it with a
  transmit predicate \<open>p\<close>, here made to record the messages it is asked about and the
  messages it accepts, sends the longest prefix \<open>p\<close> accepts, in order; asks about
  nothing beyond the first message \<open>p\<close> rejects; and leaves that message and all
  later ones queued, in order. With the logger's own consumer and status
  \<^verbatim>\<open>'connected'\<close>, every message goes to the socket in push order and the queue is
  left empty.
\<close>

theorem flush_fifo_order:
  "queue_process (\<lambda>m (asked, sent). (p m, (asked @ [m], if p m then sent @ [m] else sent)))
       (foldl (\<lambda>q m. queue_push m q) [] ms) ([], [])
     = (dropWhile p ms, (takeWhile p ms @ take 1 (dropWhile p ms), takeWhile p ms))
   \<and> (status this = ''connected'' \<and> messageQueue this = foldl (\<lambda>q m. queue_push m q) [] ms \<longrightarrow>
        messageQueue_process this = this\<lparr>messageQueue := [], socket := socket this @ map Send ms\<rparr>)"
  using queue_process_instrumented [of p ms "[]" "[]"]
  by (simp add: pushes_build_queue messageQueue_process_connected)

theorem flush_fifo_order_witness:
  "status ((constructor ''localhost:8001'' [] False True)
             \<lparr>status := ''connected'', messageQueue := [JStr ''a'', JStr ''b'']\<rparr>) = ''connected''
   \<and> foldl (\<lambda>q m. queue_push m q) [] [JStr ''a'', JStr ''b''] = [JStr ''a'', JStr ''b'']
   \<and> messageQueue_process
        ((constructor ''localhost:8001'' [] False True)
           \<lparr>status := ''connected'', messageQueue := [JStr ''a'', JStr ''b'']\<rparr>)
       = (constructor ''localhost:8001'' [] False True)
           \<lparr>status := ''connected'', messageQueue := [],
            socket := [Send (JStr ''a''), Send (JStr ''b'')]\<rparr>
   \<and> queue_process (\<lambda>m (asked, sent). (m \<noteq> JStr ''b'', (asked @ [m], if m \<noteq> JStr ''b'' then sent @ [m] else sent)))
        [JStr ''a'', JStr ''b'', JStr ''c''] ([], [])
       = ([JStr ''b'', JStr ''c''], ([JStr ''a'', JStr ''b''], [JStr ''a'']))"
  using flush_fifo_order [of "\<lambda>m. m \<noteq> JStr ''b''" "[JStr ''a'', JStr ''b'', JStr ''c'']"]
    flush_fifo_order [of _ "[JStr ''a'', JStr ''b'']"
      "(constructor ''localhost:8001'' [] False True)
         \<lparr>status := ''connected'', messageQueue := [JStr ''a'', JStr ''b'']\<rparr>"]
  by (simp add: queue_push_def constructor_def)

subsection \<open>Socket close\<close>

text \<open>
  C3. Whatever the status and the queue, after the close callback the status is
  \<^verbatim>\<open>'disconnected'\<close>, the queue is empty and the disconnected event has been
  deferred with the socket options as payload.
\<close>

theorem socket_close_clears:
  "status (socket_close this) = ''disconnected''
   \<and> messageQueue (socket_close this) = []
   \<and> deferred (socket_close this) =
       deferred this @ [(''socketlogger:disconnected'', socketOptions (params this))]"
  by (simp add: socket_close_def messageQueue_empty_def queue_empty_def triggerDefer_def
      setTimeout_def s_STR_EVENT_DISCONNECTED_def Let_def)



subsection \<open>Inbound messages\<close>

text \<open>
  C5. In status \<^verbatim>\<open>'disconnected'\<close>, a message whose \<^verbatim>\<open>msg\<close> is
  \<^verbatim>\<open>'connected'\<close> sets the status to \<^verbatim>\<open>'connected'\<close>, hands every queued message
  to the socket in order, leaving the queue empty, and defers the connected event with
  the socket options as payload.
\<close>

theorem connected_ack_flushes:
  "status this = ''disconnected'' \<Longrightarrow> get_prop message ''msg'' = Inr (JStr ''connected'') \<Longrightarrow>
   socket_message_in message this =
     Inr (this\<lparr>status := ''connected'',
               messageQueue := [],
               socket := socket this @ map Send (messageQueue this),
               deferred := deferred this @
                 [(''socketlogger:connected'', socketOptions (params this))]\<rparr>)"
  by (simp add: socket_message_in_def messageQueue_process_connected triggerDefer_def
      s_STR_EVENT_CONNECTED_def Let_def)

theorem connected_ack_flushes_witness:
  "status (info [JStr ''x''] (constructor ''localhost:8001'' [] True True)) = ''disconnected''
   \<and> get_prop (JObj [(''msg'', JStr ''connected'')]) ''msg'' = Inr (JStr ''connected'')
   \<and> socket_message_in (JObj [(''msg'', JStr ''connected'')])
        (info [JStr ''x''] (constructor ''localhost:8001'' [] True True))
       = Inr ((constructor ''localhost:8001'' [] True True)
           \<lparr>status := ''connected'',
            socket := [Connect,
                       Send (JObj [(''msg'', JStr ''log''), (''type'', JStr ''info''),
                                   (''data'', JArguments [JStr ''x''])])],
            deferred := [(''socketlogger:connected'', [(''protocol'', JStr ''socketlogger'')])]\<rparr>)"
proof -
  have h1: "status (info [JStr ''x''] (constructor ''localhost:8001'' [] True True)) = ''disconnected''"
    by (simp add: info_def messageQueue_push_def constructor_def)
  have h2: "get_prop (JObj [(''msg'', JStr ''connected'')]) ''msg'' = Inr (JStr ''connected'')"
    by simp
  show ?thesis
    using connected_ack_flushes [OF h1 h2]
    by (simp add: info_def messageQueue_push_def queue_push_def constructor_def)
qed

text \<open>
  C6. In status \<^verbatim>\<open>'connected'\<close>, a message \<^verbatim>\<open>{msg: 'ping', id: x}\<close> adds exactly
  one call to the socket, the sending of \<^verbatim>\<open>{msg: 'pong', id: x}\<close>. The queue plays
  no part: whatever it holds, it is left as it is and the reply is the same. The status
  stays \<^verbatim>\<open>'connected'\<close>.
\<close>

theorem ping_while_connected:
  "status this = ''connected'' \<Longrightarrow>
   get_prop message ''msg'' = Inr (JStr ''ping'') \<Longrightarrow> get_prop message ''id'' = Inr x \<Longrightarrow>
   socket_message_in message (this\<lparr>messageQueue := q\<rparr>) =
     Inr (this\<lparr>messageQueue := q,
               socket := socket this @ [Send (JObj [(''msg'', JStr ''pong''), (''id'', x)])]\<rparr>)
   \<and> (case socket_message_in message this of
         Inl e \<Rightarrow> False
       | Inr this' \<Rightarrow>
           status this' = ''connected''
           \<and> messageQueue this' = messageQueue this
           \<and> socket this' = socket this @ [Send (JObj [(''msg'', JStr ''pong''), (''id'', x)])])"
  by (simp add: ping_reply)

theorem ping_while_connected_witness:
  "status ((constructor ''localhost:8001'' [] True True)\<lparr>status := ''connected''\<rparr>) = ''connected''
   \<and> get_prop (JObj [(''msg'', JStr ''ping''), (''id'', JStr ''abc'')]) ''msg'' = Inr (JStr ''ping'')
   \<and> get_prop (JObj [(''msg'', JStr ''ping''), (''id'', JStr ''abc'')]) ''id'' = Inr (JStr ''abc'')
   \<and> socket_message_in (JObj [(''msg'', JStr ''ping''), (''id'', JStr ''abc'')])
        ((constructor ''localhost:8001'' [] True True)
           \<lparr>status := ''connected'', messageQueue := [JStr ''queued'']\<rparr>)
       = Inr ((constructor ''localhost:8001'' [] True True)
           \<lparr>status := ''connected'', messageQueue := [JStr ''queued''],
            socket := [Connect, Send (JObj [(''msg'', JStr ''pong''), (''id'', JStr ''abc'')])]\<rparr>)"
proof -
  have h1: "status ((constructor ''localhost:8001'' [] True True)\<lparr>status := ''connected''\<rparr>) = ''connected''"
    by simp
  have h2: "get_prop (JObj [(''msg'', JStr ''ping''), (''id'', JStr ''abc'')]) ''msg'' = Inr (JStr ''ping'')"
    by simp
  have h3: "get_prop (JObj [(''msg'', JStr ''ping''), (''id'', JStr ''abc'')]) ''id'' = Inr (JStr ''abc'')"
    by simp
  show ?thesis
    using ping_while_connected [OF h1 h2 h3, of "[JStr ''queued'']"]
    by (simp add: constructor_def)
qed

subsection \<open>Socket open\<close>

text \<open>
  C7. The open callback sends \<^verbatim>\<open>{msg: 'connect'}\<close> on the socket and changes nothing
  else: the queue is as before, and a status \<^verbatim>\<open>'disconnected'\<close> stays so.
\<close>

theorem socket_open_sends_connect:
  "socket_open this = this\<lparr>socket := socket this @ [Send (JObj [(''msg'', JStr ''connect'')])]\<rparr>
   \<and> messageQueue (socket_open this) = messageQueue this
   \<and> (status this = ''disconnected'' \<longrightarrow> status (socket_open this) = ''disconnected'')"
  by (simp add: socket_open_def)

theorem socket_open_sends_connect_witness:
  "status (constructor ''localhost:8001'' [] True True) = ''disconnected''
   \<and> socket_open (constructor ''localhost:8001'' [] True True)
       = (constructor ''localhost:8001'' [] True True)
           \<lparr>socket := [Connect, Send (JObj [(''msg'', JStr ''connect'')])]\<rparr>
   \<and> status (socket_open (constructor ''localhost:8001'' [] True True)) = ''disconnected''"
  using socket_open_sends_connect [of "constructor ''localhost:8001'' [] True True"]
  by (simp add: constructor_def)

subsection \<open>Logging\<close>

text \<open>
  C8. Each of the six logging methods appends to the queue one message with \<^verbatim>\<open>msg\<close>
  \<^verbatim>\<open>'log'\<close>, \<^verbatim>\<open>type\<close> the name of the level and \<^verbatim>\<open>data\<close> the arguments of the
  call, in order, and changes nothing else. In the scenario of the specification
  (constructed with \<open>autoConnect\<close>, socket opens, \<^verbatim>\<open>info("x")\<close>, the connected message
  arrives) the socket is asked to connect, then sent \<^verbatim>\<open>{msg: 'connect'}\<close>, then
  \<^verbatim>\<open>{msg: 'log', type: 'info', data: ["x"]}\<close>, and the connected event is deferred.
\<close>

theorem log_calls_enqueue:
  "trace args this = this\<lparr>messageQueue := messageQueue this @
      [JObj [(''msg'', JStr ''log''), (''type'', JStr ''trace''), (''data'', JArguments args)]]\<rparr>
   \<and> debug args this = this\<lparr>messageQueue := messageQueue this @
      [JObj [(''msg'', JStr ''log''), (''type'', JStr ''debug''), (''data'', JArguments args)]]\<rparr>
   \<and> info args this = this\<lparr>messageQueue := messageQueue this @
      [JObj [(''msg'', JStr ''log''), (''type'', JStr ''info''), (''data'', JArguments args)]]\<rparr>
   \<and> warn args this = this\<lparr>messageQueue := messageQueue this @
      [JObj [(''msg'', JStr ''log''), (''type'', JStr ''warn''), (''data'', JArguments args)]]\<rparr>
   \<and> error args this = this\<lparr>messageQueue := messageQueue this @
      [JObj [(''msg'', JStr ''log''), (''type'', JStr ''error''), (''data'', JArguments args)]]\<rparr>
   \<and> fatal args this = this\<lparr>messageQueue := messageQueue this @
      [JObj [(''msg'', JStr ''log''), (''type'', JStr ''fatal''), (''data'', JArguments args)]]\<rparr>
   \<and> run [Socket_open, Call_info [JStr ''x''], Socket_message_in (JObj [(''msg'', JStr ''connected'')])]
         (constructor h so True ar)
       = (constructor h so True ar)
           \<lparr>status := ''connected'',
            socket := [Connect,
                       Send (JObj [(''msg'', JStr ''connect'')]),
                       Send (JObj [(''msg'', JStr ''log''), (''type'', JStr ''info''),
                                   (''data'', JArguments [JStr ''x''])])],
            deferred := [(''socketlogger:connected'',
                          AList.update ''protocol'' (JStr ''socketlogger'') so)]\<rparr>"
  by (simp add: trace_def debug_def info_def warn_def error_def fatal_def
      messageQueue_push_def queue_push_def constructor_def socket_open_def
      socket_message_in_def messageQueue_process_connected triggerDefer_def
      s_STR_EVENT_CONNECTED_def Let_def)

subsection \<open>Other inbound messages\<close>

text \<open>
  C9, as the code has it. A message that is neither \<^verbatim>\<open>null\<close> nor \<^verbatim>\<open>undefined\<close>
  and whose \<^verbatim>\<open>msg\<close> is neither \<^verbatim>\<open>'connected'\<close> nor \<^verbatim>\<open>'ping'\<close> is ignored: the
  callback returns normally and the logger, with its status, its queue and the log of
  socket calls, is as before.
\<close>

theorem unknown_message_ignored:
  "message \<noteq> JUndefined \<Longrightarrow> message \<noteq> JNull \<Longrightarrow>
   get_prop message ''msg'' \<noteq> Inr (JStr ''connected'') \<Longrightarrow>
   get_prop message ''msg'' \<noteq> Inr (JStr ''ping'') \<Longrightarrow>
   socket_message_in message this = Inr this"
  by (cases message) (simp_all add: socket_message_in_def)

theorem unknown_message_ignored_witness:
  "JObj [(''msg'', JStr ''result''), (''id'', JStr ''1'')] \<noteq> JUndefined
   \<and> JObj [(''msg'', JStr ''result''), (''id'', JStr ''1'')] \<noteq> JNull
   \<and> get_prop (JObj [(''msg'', JStr ''result''), (''id'', JStr ''1'')]) ''msg''
       \<noteq> Inr (JStr ''connected'')
   \<and> get_prop (JObj [(''msg'', JStr ''result''), (''id'', JStr ''1'')]) ''msg''
       \<noteq> Inr (JStr ''ping'')
   \<and> socket_message_in (JObj [(''msg'', JStr ''result''), (''id'', JStr ''1'')])
        (constructor ''localhost:8001'' [] True True)
       = Inr (constructor ''localhost:8001'' [] True True)"
proof -
  have h1: "JObj [(''msg'', JStr ''result''), (''id'', JStr ''1'')] \<noteq> JUndefined"
    and h2: "JObj [(''msg'', JStr ''result''), (''id'', JStr ''1'')] \<noteq> JNull"
    by simp_all
  have h3: "get_prop (JObj [(''msg'', JStr ''result''), (''id'', JStr ''1'')]) ''msg''
       \<noteq> Inr (JStr ''connected'')"
    and h4: "get_prop (JObj [(''msg'', JStr ''result''), (''id'', JStr ''1'')]) ''msg''
       \<noteq> Inr (JStr ''ping'')"
    by simp_all
  from h1 h2 h3 h4 unknown_message_ignored [OF h1 h2 h3 h4] show ?thesis
    by blast
qed

text \<open>
  C9, as it is stated, fails. The callback reads \<^verbatim>\<open>message.msg\<close> with no guard, so a
  message that is \<^verbatim>\<open>null\<close>, which a JSON serializer decodes from the text
  \<^verbatim>\<open>null\<close>, has a discriminator that is neither \<^verbatim>\<open>'connected'\<close> nor \<^verbatim>\<open>'ping'\<close>
  and makes the callback throw a TypeError. So does \<^verbatim>\<open>undefined\<close>.
\<close>

theorem null_message_throws:
  "get_prop JNull ''msg'' \<noteq> Inr (JStr ''connected'')
   \<and> get_prop JNull ''msg'' \<noteq> Inr (JStr ''ping'')
   \<and> socket_message_in JNull (constructor ''localhost:8001'' [] True True) = Inl TypeError
   \<and> get_prop JUndefined ''msg'' \<noteq> Inr (JStr ''connected'')
   \<and> get_prop JUndefined ''msg'' \<noteq> Inr (JStr ''ping'')
   \<and> socket_message_in JUndefined (constructor ''localhost:8001'' [] True True) = Inl TypeError"
  by (simp add: socket_message_in_def)

text \<open>
  C10. The reply to a ping does not depend on the status: whatever the status is,
  \<^verbatim>\<open>'disconnected'\<close> included, a message \<^verbatim>\<open>{msg: 'ping', id: x}\<close> makes the
  callback send \<^verbatim>\<open>{msg: 'pong', id: x}\<close> on the socket and change nothing else.
\<close>

theorem ping_reply_any_status:
  "get_prop message ''msg'' = Inr (JStr ''ping'') \<Longrightarrow> get_prop message ''id'' = Inr x \<Longrightarrow>
   socket_message_in message (this\<lparr>status := st\<rparr>) =
     Inr (this\<lparr>status := st,
               socket := socket this @ [Send (JObj [(''msg'', JStr ''pong''), (''id'', x)])]\<rparr>)"
  by (simp add: ping_reply)

theorem ping_reply_any_status_witness:
  "get_prop (JObj [(''msg'', JStr ''ping''), (''id'', JNum 7)]) ''msg'' = Inr (JStr ''ping'')
   \<and> get_prop (JObj [(''msg'', JStr ''ping''), (''id'', JNum 7)]) ''id'' = Inr (JNum 7)
   \<and> status (constructor ''localhost:8001'' [] False True) = ''disconnected''
   \<and> socket_message_in (JObj [(''msg'', JStr ''ping''), (''id'', JNum 7)])
        (constructor ''localhost:8001'' [] False True)
       = Inr ((constructor ''localhost:8001'' [] False True)
           \<lparr>socket := [Send (JObj [(''msg'', JStr ''pong''), (''id'', JNum 7)])]\<rparr>)"
proof -
  have h1: "get_prop (JObj [(''msg'', JStr ''ping''), (''id'', JNum 7)]) ''msg'' = Inr (JStr ''ping'')"
    by simp
  have h2: "get_prop (JObj [(''msg'', JStr ''ping''), (''id'', JNum 7)]) ''id'' = Inr (JNum 7)"
    by simp
  show ?thesis
    using ping_reply_any_status [OF h1 h2, where this = "constructor ''localhost:8001'' [] False True"
        and st = "''disconnected''"]
    by (simp add: constructor_def)
qed

end
